theory Spec2Isabelle
  imports Main "HOL-Library.Word" "HOL-Library.Sublist"
begin

section \<open>RESP3 types and errors\<close>

text \<open>
  The tags of \<^verbatim>\<open>aedis::resp::type\<close> that \<^verbatim>\<open>response.hpp\<close> uses (the switch of
  \<^verbatim>\<open>response_buffers::get\<close> and the \<^verbatim>\<open>response_tree\<close> hooks). The tags \<^verbatim>\<open>set\<close>,
  \<^verbatim>\<open>map\<close> and \<^verbatim>\<open>null\<close> carry a suffix, the names being taken in HOL.
\<close>

datatype type =
    array | push | set_type | map_type | attribute
  | simple_error | simple_string | number | double_type | big_number | boolean
  | blob_error | blob_string | verbatim_string | streamed_string_part | null_type

text \<open>
  What a call into an adapter can raise: a \<^verbatim>\<open>std::runtime_error\<close> with its message, a
  failed \<^verbatim>\<open>assert\<close>, or the \<^verbatim>\<open>std::length_error\<close> and the \<^verbatim>\<open>std::bad_alloc\<close> of
  \<^verbatim>\<open>vector::reserve\<close>.
\<close>

datatype error = runtime_error string | assertion_failure | length_error | bad_alloc

section \<open>Integer conversion\<close>

text \<open>
  \<^verbatim>\<open>std::from_chars\<close> belongs to the C++ standard library; it is modelled after the
  standard for a signed 64-bit target in base 10: an optional minus sign followed by the
  longest run of decimal digits. No digit gives \<^verbatim>\<open>invalid_argument\<close>; a value outside
  the range of \<^verbatim>\<open>long long\<close> gives \<^verbatim>\<open>result_out_of_range\<close> and leaves the target unmodified.
\<close>

datatype from_chars_result = converted int | invalid_argument | result_out_of_range

definition is_digit :: "char \<Rightarrow> bool" where
  "is_digit c = (c \<in> set ''0123456789'')"

definition digit_value :: "char \<Rightarrow> nat" where
  "digit_value c = of_char c - 48"

definition decimal :: "string \<Rightarrow> nat" where
  "decimal ds = foldl (\<lambda>v c. 10 * v + digit_value c) 0 ds"

definition digits_of :: "string \<Rightarrow> string" where
  "digits_of s = takeWhile is_digit (if s \<noteq> [] \<and> hd s = CHR ''-'' then tl s else s)"

definition from_chars :: "string \<Rightarrow> from_chars_result" where
  "from_chars s =
     (if digits_of s = [] then invalid_argument
      else let v = (if hd s = CHR ''-'' then - int (decimal (digits_of s))
                    else int (decimal (digits_of s)))
           in if v < - (2 ^ 63) \<or> 2 ^ 63 - 1 < v then result_out_of_range
              else converted v)"

type_synonym number_type = "64 word"

text \<open>
  \<^verbatim>\<open>from_string_view(std::string_view s, T& n)\<close>: throws only on
  \<^verbatim>\<open>std::errc::invalid_argument\<close>. The second argument is the value \<^verbatim>\<open>n\<close> holds before
  the call; the result is the value it holds afterwards.
\<close>

definition from_string_view :: "string \<Rightarrow> number_type \<Rightarrow> error + number_type" where
  "from_string_view s n =
     (case from_chars s of
        invalid_argument \<Rightarrow> Inl (runtime_error ''from_chars: Unable to convert'')
      | result_out_of_range \<Rightarrow> Inr n
      | converted v \<Rightarrow> Inr (word_of_int v))"

section \<open>The adapter interface\<close>

text \<open>
  The public member functions of \<^verbatim>\<open>response_base\<close>, one constructor per function: what a
  parser calls while it walks a reply. The count of a \<^verbatim>\<open>select_\<close> call is a C++ \<^verbatim>\<open>int\<close>.
\<close>

datatype call =
    select_attribute int | select_push int | select_array int | select_set int
  | select_map int
  | on_simple_error string | on_blob_error string | on_null | on_simple_string string
  | on_number string | on_double string | on_bool string | on_big_number string
  | on_verbatim_string string | on_blob_string string | on_streamed_string_part string
  | pop

text \<open>
  \<^verbatim>\<open>response_base\<close>: every hook that a derived class does not override throws;
  \<^verbatim>\<open>pop\<close> does nothing.
\<close>

fun response_base :: "call \<Rightarrow> 'a \<Rightarrow> error + 'a" where
  "response_base (on_simple_string s) r =
     Inl (runtime_error ''on_simple_string_impl: Has not been overridden.'')"
| "response_base (on_simple_error s) r =
     Inl (runtime_error ''on_simple_error_impl: Has not been overridden.'')"
| "response_base (on_number s) r =
     Inl (runtime_error ''on_number_impl: Has not been overridden.'')"
| "response_base (on_double s) r =
     Inl (runtime_error ''on_double_impl: Has not been overridden.'')"
| "response_base on_null r =
     Inl (runtime_error ''on_null_impl: Has not been overridden.'')"
| "response_base (on_bool s) r =
     Inl (runtime_error ''on_bool_impl: Has not been overridden.'')"
| "response_base (on_big_number s) r =
     Inl (runtime_error ''on_big_number_impl: Has not been overridden.'')"
| "response_base (on_verbatim_string s) r =
     Inl (runtime_error ''on_verbatim_string_impl: Has not been overridden.'')"
| "response_base (on_blob_string s) r =
     Inl (runtime_error ''on_blob_string_impl: Has not been overridden.'')"
| "response_base (on_blob_error s) r =
     Inl (runtime_error ''on_blob_error_impl: Has not been overridden.'')"
| "response_base (on_streamed_string_part s) r =
     Inl (runtime_error ''on_streamed_string_part: Has not been overridden.'')"
| "response_base (select_array n) r =
     Inl (runtime_error ''select_array_impl: Has not been overridden.'')"
| "response_base (select_set n) r =
     Inl (runtime_error ''select_set_impl: Has not been overridden.'')"
| "response_base (select_map n) r =
     Inl (runtime_error ''select_map_impl: Has not been overridden.'')"
| "response_base (select_push n) r =
     Inl (runtime_error ''select_push_impl: Has not been overridden.'')"
| "response_base (select_attribute n) r =
     Inl (runtime_error ''select_attribute_impl: Has not been overridden.'')"
| "response_base pop r = Inr r"

text \<open>The adapters with a single \<^verbatim>\<open>result\<close> member share one record.\<close>

record 'a response =
  result :: 'a

text \<open>\<^verbatim>\<open>response_basic_number<long long int>\<close> overrides \<^verbatim>\<open>on_number_impl\<close> only.\<close>

fun response_basic_number ::
  "call \<Rightarrow> number_type response \<Rightarrow> error + number_type response" where
  "response_basic_number (on_number s) r =
     (case from_string_view s (result r) of
        Inl e \<Rightarrow> Inl e
      | Inr n \<Rightarrow> Inr (r\<lparr>result := n\<rparr>))"
| "response_basic_number c r = response_base c r"

text \<open>\<^verbatim>\<open>response_bool\<close> overrides \<^verbatim>\<open>on_bool_impl\<close> only.\<close>

fun response_bool :: "call \<Rightarrow> bool response \<Rightarrow> error + bool response" where
  "response_bool (on_bool s) r =
     (if int (length s) \<noteq> 1 then Inl (runtime_error ''Bool has wrong size'')
      else Inr (r\<lparr>result := (s ! 0 = CHR ''t'')\<rparr>))"
| "response_bool c r = response_base c r"

text \<open>\<^verbatim>\<open>response_basic_streamed_string\<close> overrides \<^verbatim>\<open>on_streamed_string_part_impl\<close> only.\<close>

fun response_basic_streamed_string ::
  "call \<Rightarrow> string response \<Rightarrow> error + string response" where
  "response_basic_streamed_string (on_streamed_string_part s) r =
     Inr (r\<lparr>result := result r @ s\<rparr>)"
| "response_basic_streamed_string c r = response_base c r"

section \<open>Driving an adapter\<close>

text \<open>
  Modelled from the spec: the parser and the read operation (components B and E) are not
  among the sources. Of them only this much is used: the hooks of an adapter are called
  one after the other in document order, and an exception thrown by a hook ends the read
  with that exception.
\<close>

fun drive :: "(call \<Rightarrow> 'a \<Rightarrow> error + 'a) \<Rightarrow> call list \<Rightarrow> 'a \<Rightarrow> error + 'a" where
  "drive f [] r = Inr r"
| "drive f (c # cs) r = (case f c r of Inl e \<Rightarrow> Inl e | Inr r' \<Rightarrow> drive f cs r')"

text \<open>Modelled from the spec: the CRLF that ends every line (section 4.A).\<close>

definition CRLF :: string where
  "CRLF = [CHR 0x0D, CHR 0x0A]"

text \<open>
  Modelled from the spec: a line and what follows it (section 4.A), the parser being
  absent; \<open>None\<close> when the input has no CRLF yet.
\<close>

fun read_line :: "string \<Rightarrow> (string \<times> string) option" where
  "read_line [] = None"
| "read_line [c] = None"
| "read_line (c # d # s) =
     (if [c, d] = CRLF then Some ([], s)
      else map_option (\<lambda>(l, r). (c # l, r)) (read_line (d # s)))"

text \<open>
  Modelled from the spec: the decimal byte count of a header (section 6); \<open>None\<close> when
  the header is empty or has a character that is no digit.
\<close>

definition read_length :: "string \<Rightarrow> nat option" where
  "read_length h = (if h \<noteq> [] \<and> list_all is_digit h then Some (decimal h) else None)"

lemma read_line_shorter: "read_line s = Some (l, r) \<Longrightarrow> length r < length s"
  by (induction s arbitrary: l r rule: read_line.induct) (auto split: if_splits)

text \<open>
  Modelled from the spec: the framing of the parts of a streamed string (sections 4.A,
  4.B and 6), the parser being absent. Each part is \<^verbatim>\<open>;\<close> followed by the decimal
  byte count of its payload, CRLF, the payload and CRLF; the part of length zero ends
  the string and delivers nothing (\<^verbatim>\<open>test_streamed_string\<close> reads \<^verbatim>\<open>$?\r\n;0\r\n\<close>
  into an array adapter and expects no element). The result is the list of the payloads
  and the input that follows; \<open>None\<close> stands for input that is incomplete or malformed.
\<close>

function streamed_string_parts :: "string \<Rightarrow> (string list \<times> string) option" where
  "streamed_string_parts s =
     (case read_line s of
        None \<Rightarrow> None
      | Some (l, rest) \<Rightarrow>
          if l = [] \<or> hd l \<noteq> CHR '';'' then None
          else (case read_length (tl l) of
                  None \<Rightarrow> None
                | Some n \<Rightarrow>
                    if n = 0 then Some ([], rest)
                    else if take 2 (drop n rest) \<noteq> CRLF then None
                    else map_option (\<lambda>(ps, r). (take n rest # ps, r))
                           (streamed_string_parts (drop (n + 2) rest))))"
  by pat_completeness auto
termination
  by (relation "measure length") (auto dest: read_line_shorter)

declare streamed_string_parts.simps [simp del]

text \<open>
  Modelled from the spec: the calls a streamed string gives rise to (sections 4.A and
  4.B), the parser being absent. The header \<^verbatim>\<open>$?\<close> opens the streamed string; every
  part is handed to \<^verbatim>\<open>on_streamed_string_part\<close>.
\<close>

definition streamed_string_calls :: "string \<Rightarrow> (call list \<times> string) option" where
  "streamed_string_calls s =
     (case read_line s of
        None \<Rightarrow> None
      | Some (l, rest) \<Rightarrow>
          if l \<noteq> ''$?'' then None
          else map_option (\<lambda>(ps, r). (map on_streamed_string_part ps, r))
                 (streamed_string_parts rest))"

text \<open>
  Modelled from the spec: the wire form of a streamed string with the given parts, none
  of them empty (section 6: a blob length is the decimal byte count of the payload,
  without the CRLF that ends it).
\<close>

definition digit_char :: "nat \<Rightarrow> char" where
  "digit_char d = ''0123456789'' ! d"

fun decimal_digits :: "nat \<Rightarrow> string" where
  "decimal_digits n =
     (if n < 10 then [digit_char n]
      else decimal_digits (n div 10) @ [digit_char (n mod 10)])"

declare decimal_digits.simps [simp del]

definition streamed_string_part_frame :: "string \<Rightarrow> string" where
  "streamed_string_part_frame p = '';'' @ decimal_digits (length p) @ CRLF @ p @ CRLF"

definition streamed_string_frame :: "string list \<Rightarrow> string" where
  "streamed_string_frame ps =
     ''$?'' @ CRLF @ concat (map streamed_string_part_frame ps) @ '';0'' @ CRLF"

section \<open>The tree adapter\<close>

text \<open>
  \<^verbatim>\<open>response_tree::elem\<close>, and the members \<^verbatim>\<open>result\<close> and \<^verbatim>\<open>depth_\<close> of
  \<^verbatim>\<open>response_tree\<close> in the record \<open>tree\<close>; \<open>depth_counter\<close> stands for \<^verbatim>\<open>depth_\<close>
  and \<open>elem_value\<close> for \<^verbatim>\<open>value\<close>. The depth counter is a C++ \<^verbatim>\<open>int\<close>; it is an
  \<open>int\<close> here, so what is proved holds below \<open>2 ^ 31\<close> open aggregates, where
  \<^verbatim>\<open>++depth_\<close> is defined.
\<close>

record elem =
  depth :: int
  t :: type
  expected_size :: int
  elem_value :: "string list"

record tree = "elem list response" +
  depth_counter :: int

text \<open>
  \<^verbatim>\<open>reserve(n)\<close> of a \<^verbatim>\<open>std::vector\<close>, called with a C++ \<^verbatim>\<open>int\<close>. A negative \<^verbatim>\<open>n\<close>,
  converted to \<^verbatim>\<open>size_t\<close>, exceeds \<^verbatim>\<open>max_size()\<close> and gives \<^verbatim>\<open>std::length_error\<close>.
  Whether room for \<^verbatim>\<open>n\<close> elements is granted depends on the machine: the first argument
  is the largest count the allocator grants, and a larger \<^verbatim>\<open>n\<close> gives
  \<^verbatim>\<open>std::bad_alloc\<close>; the one limit stands for both vectors that reserve, \<^verbatim>\<open>result\<close>
  and \<^verbatim>\<open>value\<close>. A reserve that succeeds has no visible effect. The small
  allocations of \<^verbatim>\<open>emplace_back\<close> and \<^verbatim>\<open>push_back\<close> are taken to succeed.
\<close>

definition reserve :: "int \<Rightarrow> int \<Rightarrow> error option" where
  "reserve m n = (if n < 0 then Some length_error else if m < n then Some bad_alloc else None)"

text \<open>
  \<^verbatim>\<open>add_aggregate(int n, type t)\<close>; the first argument is the allocator's limit. At depth
  0 it reserves and returns; below, the element is recorded before its \<^verbatim>\<open>value\<close>
  reserves.
\<close>

definition add_aggregate :: "int \<Rightarrow> int \<Rightarrow> type \<Rightarrow> tree \<Rightarrow> error + tree" where
  "add_aggregate m n ty r =
     (if depth_counter r = 0 then
        (case reserve m n of
           Some e \<Rightarrow> Inl e
         | None \<Rightarrow> Inr (r\<lparr>depth_counter := depth_counter r + 1\<rparr>))
      else
        (case reserve m n of
           Some e \<Rightarrow> Inl e
         | None \<Rightarrow>
             Inr (r\<lparr>result := result r @
                       [\<lparr>depth = depth_counter r, t = ty, expected_size = n,
                         elem_value = []\<rparr>],
                     depth_counter := depth_counter r + 1\<rparr>)))"

text \<open>\<^verbatim>\<open>add(std::string_view s, type t)\<close>, with its assertion.\<close>

definition add :: "string \<Rightarrow> type \<Rightarrow> tree \<Rightarrow> error + tree" where
  "add s ty r =
     (if result r = [] then Inl assertion_failure
      else if int (length (elem_value (last (result r)))) = expected_size (last (result r))
      then Inr (r\<lparr>result := result r @
                     [\<lparr>depth = depth_counter r, t = ty, expected_size = 1, elem_value = [s]\<rparr>]\<rparr>)
      else Inr (r\<lparr>result := butlast (result r) @
                     [(last (result r))
                        \<lparr>elem_value := elem_value (last (result r)) @ [s]\<rparr>]\<rparr>))"

text \<open>The hooks of \<^verbatim>\<open>response_tree\<close>; the first argument is the allocator's limit.\<close>

fun response_tree :: "int \<Rightarrow> call \<Rightarrow> tree \<Rightarrow> error + tree" where
  "response_tree m (select_array n) r = add_aggregate m n array r"
| "response_tree m (select_push n) r = add_aggregate m n push r"
| "response_tree m (select_set n) r = add_aggregate m n set_type r"
| "response_tree m (select_map n) r = add_aggregate m n map_type r"
| "response_tree m (select_attribute n) r = add_aggregate m n attribute r"
| "response_tree m (on_simple_string s) r = add s simple_string r"
| "response_tree m (on_simple_error s) r = add s simple_error r"
| "response_tree m (on_number s) r = add s number r"
| "response_tree m (on_double s) r = add s double_type r"
| "response_tree m (on_bool s) r = add s boolean r"
| "response_tree m (on_big_number s) r = add s big_number r"
| "response_tree m on_null r = add [] null_type r"
| "response_tree m (on_blob_error s) r = add s blob_error r"
| "response_tree m (on_verbatim_string s) r = add s verbatim_string r"
| "response_tree m (on_blob_string s) r = add s blob_string r"
| "response_tree m (on_streamed_string_part s) r = add s streamed_string_part r"
| "response_tree m pop r = Inr (r\<lparr>depth_counter := depth_counter r - 1\<rparr>)"

text \<open>A tree adapter as constructed, which is also its state after \<^verbatim>\<open>clear()\<close>.\<close>

definition clear :: tree where
  "clear = \<lparr>result = [], depth_counter = 0\<rparr>"

text \<open>
  Modelled from the spec: a reply (section 3), a node with its kind, its data and its
  children, the parser that produces it being absent.
\<close>

datatype reply = reply type string "reply list"

text \<open>Modelled from the spec: the aggregate kinds (section 3).\<close>

definition is_aggregate :: "type \<Rightarrow> bool" where
  "is_aggregate ty = (ty \<in> {array, push, set_type, map_type, attribute})"

text \<open>
  Modelled from the spec: the hook of \<^verbatim>\<open>response_base\<close> for the header of an aggregate
  of a given kind; it is used for the aggregate kinds only.
\<close>

fun select_call :: "type \<Rightarrow> int \<Rightarrow> call" where
  "select_call array n = select_array n"
| "select_call push n = select_push n"
| "select_call set_type n = select_set n"
| "select_call map_type n = select_map n"
| "select_call ty n = select_attribute n"

text \<open>
  Modelled from the spec: the hook of \<^verbatim>\<open>response_base\<close> for a scalar of a given kind;
  it is used for the scalar kinds only.
\<close>

fun on_call :: "type \<Rightarrow> string \<Rightarrow> call" where
  "on_call simple_string s = on_simple_string s"
| "on_call simple_error s = on_simple_error s"
| "on_call number s = on_number s"
| "on_call double_type s = on_double s"
| "on_call boolean s = on_bool s"
| "on_call big_number s = on_big_number s"
| "on_call null_type s = on_null"
| "on_call blob_error s = on_blob_error s"
| "on_call verbatim_string s = on_verbatim_string s"
| "on_call blob_string s = on_blob_string s"
| "on_call ty s = on_streamed_string_part s"

text \<open>
  Modelled from the spec: the calls a reply gives rise to (sections 4.B and 4.C), the
  parser being absent. The root comes first, then its descendants in document order; an
  aggregate announces its declared number of element slots on entry and is left by
  \<^verbatim>\<open>pop\<close> once its last child is done.
\<close>

fun calls_of :: "reply \<Rightarrow> call list" where
  "calls_of (reply ty s cs) =
     (if is_aggregate ty
      then select_call ty (int (length cs)) # concat (map calls_of cs) @ [pop]
      else [on_call ty s])"






subsection \<open>What the tree adapter has recorded\<close>




text \<open>
  What the depth counter counts: the aggregate headers entered and not yet left. Every
  call either leaves the recorded depths alone or records one element at the depth the
  counter shows at that instant.
\<close>

fun opened :: "call \<Rightarrow> int" where
  "opened (select_array n) = 1"
| "opened (select_push n) = 1"
| "opened (select_set n) = 1"
| "opened (select_map n) = 1"
| "opened (select_attribute n) = 1"
| "opened pop = - 1"
| "opened c = 0"

section \<open>The connection engine\<close>

text \<open>
  The connection engine and the request class (components D and F of the spec) are not
  among the sources; only their tests in \<^verbatim>\<open>conn_exec.cpp\<close> are. This section holds
  the states of the engine, the request config, the pending slots and the four
  activities the spec describes: submission, the progress of a connection attempt, the
  writer and the reader. Connection loss, shutdown and the cancellation of a pending
  slot are left out.
\<close>

text \<open>Modelled from the spec: the states of the engine's state machine (section 4.F).\<close>

datatype conn_state =
  disconnected | resolving | connecting | handshaking | running | draining

text \<open>Modelled from the spec: the request config (section 3).\<close>

record config =
  cancel_on_connection_lost :: bool
  cancel_if_not_connected :: bool
  hello_with_priority :: bool
  retry :: bool

text \<open>
  Modelled from the spec: what a request records of each command (section 3): its name,
  the number of top-level replies it expects and the transaction flag.
\<close>

record command =
  name :: string
  expected_replies :: nat
  treat_reply_as_transaction :: bool

text \<open>
  Modelled from the spec: a request (section 3), its ordered list of commands and its
  config, which the tests reach through \<^verbatim>\<open>get_config()\<close>. The payload is left out.
\<close>

record request =
  commands :: "command list"
  get_config :: config

text \<open>Modelled from the spec: the error kinds of the engine (section 7).\<close>

datatype engine_error =
    not_connected | cancelled | handshake_failed | connection_lost | idle_timeout
  | resolve_timeout | connect_timeout | ssl_handshake_timeout

text \<open>
  Modelled from the spec: a pending slot (section 3). It holds the completion handle, a
  number that names the submission, the request with its config, and the counter of
  top-level replies the request still expects. The adapters are left out. The state of a
  slot is the queue of the engine that holds it.
\<close>

record slot =
  handle :: nat
  slot_request :: request
  remaining :: nat

text \<open>
  Modelled from the spec: the engine (sections 3 and 4.F). A slot is \<open>queued\<close> before
  its bytes are written and \<open>awaiting_reply\<close> afterwards; a slot that is done has left
  both queues, and its completion is in \<open>completions\<close>, the log of the completions in
  the order in which they were signalled, each with the handle and the error, if any.
\<close>

record engine =
  state :: conn_state
  awaiting_reply :: "slot list"
  queued :: "slot list"
  completions :: "(nat \<times> engine_error option) list"

text \<open>
  Modelled from the spec: the pending FIFO (section 3), the slots whose replies are
  awaited followed by the slots still to be written.
\<close>

definition fifo :: "engine \<Rightarrow> slot list" where
  "fifo e = awaiting_reply e @ queued e"

text \<open>Modelled from the spec: an engine that has not been started.\<close>

definition new_engine :: engine where
  "new_engine = \<lparr>state = disconnected, awaiting_reply = [], queued = [], completions = []\<rparr>"

text \<open>
  Modelled from the spec: the slot created for a submission (section 4.F, step 1); it
  expects the replies of all commands of the request.
\<close>

definition new_slot :: "nat \<Rightarrow> request \<Rightarrow> slot" where
  "new_slot h r =
     \<lparr>handle = h, slot_request = r,
      remaining = sum_list (map expected_replies (commands r))\<rparr>"

text \<open>
  Modelled from the spec: submission (section 4.F, steps 1 to 3, and the HELLO priority
  rule). A request with \<^verbatim>\<open>cancel_if_not_connected\<close> that finds the engine not running
  completes at once with \<^verbatim>\<open>not_connected\<close> and leaves no slot. Any other request is
  enqueued: a request whose config has \<^verbatim>\<open>hello_with_priority\<close> set and that is
  submitted before the handshake is complete goes ahead of everything that is still
  unwritten, every other request goes to the end.
\<close>

definition async_exec :: "nat \<Rightarrow> request \<Rightarrow> engine \<Rightarrow> engine" where
  "async_exec h r e =
     (if state e \<noteq> running \<and> cancel_if_not_connected (get_config r)
      then e\<lparr>completions := completions e @ [(h, Some not_connected)]\<rparr>
      else if state e \<noteq> running \<and> hello_with_priority (get_config r)
      then e\<lparr>queued := new_slot h r # queued e\<rparr>
      else e\<lparr>queued := queued e @ [new_slot h r]\<rparr>)"




text \<open>
  Modelled from the spec: what can happen on the engine's strand (section 5): a
  submission with its completion handle, a step of the connection attempt, a flush of
  the writer, a reply taken by the reader. An interleaving is a list of such events.
\<close>

datatype event = submit nat request | progress | flush | reply_received



fun is_submit :: "event \<Rightarrow> bool" where
  "is_submit (submit h r) = True"
| "is_submit ev = False"





text \<open>
  The requests of the test \<^verbatim>\<open>hello_priority\<close> in \<^verbatim>\<open>conn_exec.cpp\<close>, each with the
  config given; every command expects one reply.
\<close>

definition ping :: "string \<Rightarrow> command" where
  "ping s = \<lparr>name = ''PING'', expected_replies = 1, treat_reply_as_transaction = False\<rparr>"

definition hello :: command where
  "hello = \<lparr>name = ''HELLO'', expected_replies = 1, treat_reply_as_transaction = False\<rparr>"






text \<open>A config with every flag off.\<close>

definition plain :: config where
  "plain = \<lparr>cancel_on_connection_lost = False, cancel_if_not_connected = False,
            hello_with_priority = False, retry = False\<rparr>"

section \<open>Facts about the integer conversion\<close>

lemma from_chars_in_range:
  "from_chars s = converted v \<Longrightarrow> - (2 ^ 63) \<le> v \<and> v \<le> 2 ^ 63 - 1"
  by (auto simp add: from_chars_def Let_def split: if_splits)

lemma sint_word_of_int_64:
  "- (2 ^ 63) \<le> v \<Longrightarrow> v \<le> 2 ^ 63 - 1 \<Longrightarrow> sint (word_of_int v :: number_type) = v"
  by (simp add: sint_sbintrunc' signed_take_bit_int_eq_self)

lemma from_chars_invalid_iff: "(from_chars s = invalid_argument) = (digits_of s = [])"
  by (simp add: from_chars_def Let_def)

lemma from_string_view_throws_iff:
  "(\<exists>e. from_string_view s n = Inl e) = (from_chars s = invalid_argument)"
  by (cases "from_chars s") (simp_all add: from_string_view_def)

lemma from_chars_minus_3: "from_chars ''-3'' = converted (- 3)"
  by (simp add: from_chars_def digits_of_def is_digit_def decimal_def digit_value_def)

lemma from_chars_2_63: "from_chars ''9223372036854775808'' = result_out_of_range"
  by (simp add: from_chars_def digits_of_def is_digit_def decimal_def digit_value_def)

section \<open>The number adapter\<close>

text \<open>
  C9. \<^verbatim>\<open>from_string_view\<close> throws exactly when \<^verbatim>\<open>std::from_chars\<close> reports
  \<^verbatim>\<open>invalid_argument\<close>, that is when no digit follows the optional minus sign. When the
  decimal value of a number body does not fit the target (\<^verbatim>\<open>result_out_of_range\<close>) the
  number adapter returns normally and its \<^verbatim>\<open>result\<close> member is what it was before the
  call, so the value on the wire is not stored and no error reaches the caller. The body
  \<^verbatim>\<open>9223372036854775808\<close>, which is \<open>2 ^ 63\<close>, is such a body.
\<close>

theorem from_string_view_out_of_range_is_silent:
  "((\<exists>e. from_string_view s n = Inl e) \<longleftrightarrow> from_chars s = invalid_argument)
   \<and> (from_chars s = invalid_argument \<longleftrightarrow> digits_of s = [])
   \<and> (from_chars s = result_out_of_range \<longrightarrow>
        response_basic_number (on_number s) r = Inr r)
   \<and> decimal ''9223372036854775808'' = 2 ^ 63
   \<and> from_chars ''9223372036854775808'' = result_out_of_range
   \<and> response_basic_number (on_number ''9223372036854775808'') r = Inr r"
proof -
  have silent: "from_chars b = result_out_of_range \<longrightarrow>
      response_basic_number (on_number b) r = Inr r" for b
    by (simp add: from_string_view_def)
  have value_2_63: "decimal ''9223372036854775808'' = 2 ^ 63"
    by (simp add: decimal_def digit_value_def)
  from silent value_2_63 from_chars_2_63 from_chars_invalid_iff from_string_view_throws_iff
  show ?thesis by blast
qed

theorem from_string_view_out_of_range_is_silent_witness:
  "from_chars ''99999999999999999999'' = result_out_of_range
   \<and> response_basic_number (on_number ''99999999999999999999'') \<lparr>result = 7\<rparr>
       = Inr \<lparr>result = 7\<rparr>
   \<and> \<not> (\<exists>e. from_string_view ''99999999999999999999'' 7 = Inl e)"
proof -
  have range: "from_chars ''99999999999999999999'' = result_out_of_range"
    by (simp add: from_chars_def digits_of_def is_digit_def decimal_def digit_value_def)
  from range
    from_string_view_out_of_range_is_silent
      [of "''99999999999999999999''" 7 "\<lparr>result = 7\<rparr>"]
  show ?thesis by simp
qed

text \<open>
  C6, as the claim states it, fails: the number adapter does not accept a boolean node,
  and it does not accept null. Both calls end in the exception of \<^verbatim>\<open>response_base\<close>.
\<close>

theorem response_basic_number_rejects_boolean_and_null:
  "response_basic_number (on_bool ''t'') \<lparr>result = 0\<rparr>
     = Inl (runtime_error ''on_bool_impl: Has not been overridden.'')
   \<and> response_basic_number on_null \<lparr>result = 0\<rparr>
     = Inl (runtime_error ''on_null_impl: Has not been overridden.'')"
  by simp

text \<open>
  C6, amended. The number adapter accepts a number node and nothing else: a body that
  \<^verbatim>\<open>std::from_chars\<close> converts is stored (\<^verbatim>\<open>-3\<close> gives \<open>- 3\<close>), a body without digits
  raises the conversion error, and the hook of every other node kind, boolean and null
  included, raises the runtime error of \<^verbatim>\<open>response_base\<close> that it has not been
  overridden. (\<^verbatim>\<open>pop\<close> is no node; it does nothing.)
\<close>

theorem response_basic_number_accepts_number_only:
  "(from_chars s = converted v \<longrightarrow>
      (\<exists>r'. response_basic_number (on_number s) r = Inr r' \<and> sint (result r') = v))
   \<and> response_basic_number (on_number ''-3'') r = Inr (r\<lparr>result := - 3\<rparr>)
   \<and> (from_chars s = invalid_argument \<longrightarrow>
        response_basic_number (on_number s) r
          = Inl (runtime_error ''from_chars: Unable to convert''))
   \<and> ((\<forall>b. c \<noteq> on_number b) \<and> c \<noteq> pop \<longrightarrow>
        response_basic_number c r = response_base c r
        \<and> (\<exists>m. response_base c r = Inl (runtime_error m)))"
proof -
  have stored: "from_chars s = converted v \<longrightarrow>
      (\<exists>r'. response_basic_number (on_number s) r = Inr r' \<and> sint (result r') = v)"
    using from_chars_in_range [of s v] sint_word_of_int_64 [of v]
    by (auto simp add: from_string_view_def)
  have minus_3: "response_basic_number (on_number ''-3'') r = Inr (r\<lparr>result := - 3\<rparr>)"
    by (simp add: from_string_view_def from_chars_minus_3)
  have no_digit: "from_chars s = invalid_argument \<longrightarrow>
      response_basic_number (on_number s) r
        = Inl (runtime_error ''from_chars: Unable to convert'')"
    by (simp add: from_string_view_def)
  have other: "(\<forall>b. c \<noteq> on_number b) \<and> c \<noteq> pop \<longrightarrow>
      response_basic_number c r = response_base c r
      \<and> (\<exists>m. response_base c r = Inl (runtime_error m))"
    by (cases c) simp_all
  from stored minus_3 no_digit other show ?thesis by blast
qed

theorem response_basic_number_accepts_number_only_witness:
  "(\<exists>r'. response_basic_number (on_number ''-3'') \<lparr>result = 0\<rparr> = Inr r'
          \<and> sint (result r') = - 3)
   \<and> (\<exists>m. response_basic_number (on_simple_string ''OK'') \<lparr>result = 0\<rparr>
          = Inl (runtime_error m))"
  using response_basic_number_accepts_number_only
    [of "''-3''" "- 3" "\<lparr>result = 0\<rparr>" "on_simple_string ''OK''"]
  by (simp add: from_chars_minus_3)

section \<open>The boolean adapter\<close>

text \<open>
  C5, as the claim states it, fails: the one-byte body \<^verbatim>\<open>x\<close> raises no error, the
  adapter stores the boolean \<open>False\<close>.
\<close>

theorem response_bool_reads_x_as_false:
  "response_bool (on_bool ''x'') \<lparr>result = True\<rparr> = Inr \<lparr>result = False\<rparr>"
  by simp

text \<open>
  C5, amended. A boolean body that is the single byte \<^verbatim>\<open>t\<close> yields true; every other
  one-byte body, \<^verbatim>\<open>f\<close> or not, yields false; only a body whose length is not one raises
  an error, the runtime error \<^verbatim>\<open>Bool has wrong size\<close>.
\<close>

theorem response_bool_compares_with_t:
  "response_bool (on_bool ''t'') r = Inr (r\<lparr>result := True\<rparr>)
   \<and> (b \<noteq> CHR ''t'' \<longrightarrow> response_bool (on_bool [b]) r = Inr (r\<lparr>result := False\<rparr>))
   \<and> (length s \<noteq> 1 \<longrightarrow>
        response_bool (on_bool s) r = Inl (runtime_error ''Bool has wrong size''))"
  by simp

theorem response_bool_compares_with_t_witness:
  "response_bool (on_bool ''f'') \<lparr>result = True\<rparr> = Inr \<lparr>result = False\<rparr>
   \<and> response_bool (on_bool ''true'') \<lparr>result = True\<rparr>
       = Inl (runtime_error ''Bool has wrong size'')"
  using response_bool_compares_with_t [of "\<lparr>result = True\<rparr>" "CHR ''f''" "''true''"]
  by simp

section \<open>The streamed string adapter\<close>

lemma drive_streamed_string:
  "drive response_basic_streamed_string (map on_streamed_string_part parts) r
     = Inr (r\<lparr>result := result r @ concat parts\<rparr>)"
  by (induction parts arbitrary: r) simp_all

lemma digit_char_props:
  assumes "d < 10"
  shows "is_digit (digit_char d) \<and> digit_value (digit_char d) = d
    \<and> digit_char d \<noteq> CHR 0x0D"
proof -
  from assms have "d \<in> {0, 1, 2, 3, 4, 5, 6, 7, 8, 9}" by auto
  then show ?thesis
    by (auto simp add: is_digit_def digit_value_def digit_char_def)
qed

lemma decimal_snoc: "decimal (ds @ [c]) = 10 * decimal ds + digit_value c"
  by (simp add: decimal_def)

lemma decimal_digits_props:
  "decimal_digits n \<noteq> [] \<and> list_all is_digit (decimal_digits n)
   \<and> decimal (decimal_digits n) = n \<and> CHR 0x0D \<notin> set (decimal_digits n)"
proof (induction n rule: decimal_digits.induct)
  case (1 n)
  show ?case
  proof (cases "n < 10")
    case True
    with digit_char_props [of n] show ?thesis
      by (subst (1 2 3 4) decimal_digits.simps) (auto simp add: decimal_def)
  next
    case False
    have "n mod 10 < 10" by simp
    from digit_char_props [OF this] 1 False show ?thesis
      by (subst (1 2 3 4) decimal_digits.simps) (auto simp add: decimal_snoc)
  qed
qed

lemma read_length_digits: "read_length (decimal_digits n) = Some n"
  using decimal_digits_props [of n] by (simp add: read_length_def)

lemma length_CRLF: "length CRLF = 2"
  by (simp add: CRLF_def)

lemma read_line_frame:
  "CHR 0x0D \<notin> set l \<Longrightarrow> read_line (l @ CRLF @ rest) = Some (l, rest)"
proof (induction l)
  case Nil
  then show ?case by (simp add: CRLF_def)
next
  case (Cons c l)
  then show ?case by (cases l) (auto simp add: CRLF_def)
qed

lemma streamed_string_parts_frame:
  "\<forall>p \<in> set ps. p \<noteq> [] \<Longrightarrow>
   streamed_string_parts (concat (map streamed_string_part_frame ps) @ '';0'' @ CRLF @ rest)
     = Some (ps, rest)"
proof (induction ps)
  case Nil
  have "read_line ('';0'' @ CRLF @ rest) = Some ('';0'', rest)"
    by (rule read_line_frame) simp
  then show ?case
    by (subst streamed_string_parts.simps)
       (simp add: read_length_def is_digit_def decimal_def digit_value_def)
next
  case (Cons p ps)
  let ?tail = "concat (map streamed_string_part_frame ps) @ '';0'' @ CRLF @ rest"
  have shape: "concat (map streamed_string_part_frame (p # ps)) @ '';0'' @ CRLF @ rest
      = ('';'' @ decimal_digits (length p)) @ CRLF @ (p @ CRLF @ ?tail)"
    by (simp add: streamed_string_part_frame_def)
  have line: "read_line (('';'' @ decimal_digits (length p)) @ CRLF @ (p @ CRLF @ ?tail))
      = Some ('';'' @ decimal_digits (length p), p @ CRLF @ ?tail)"
    using decimal_digits_props [of "length p"] by (intro read_line_frame) simp
  from Cons.prems have nonempty: "p \<noteq> []" by simp
  from Cons have tail: "streamed_string_parts ?tail = Some (ps, rest)" by simp
  from tail show ?case
    apply (subst streamed_string_parts.simps)
    apply (simp only: shape line option.case prod.case)
    apply (simp add: read_length_digits length_CRLF nonempty)
    done
qed

lemma streamed_string_calls_frame:
  assumes "\<forall>p \<in> set ps. p \<noteq> []"
  shows "streamed_string_calls (streamed_string_frame ps)
    = Some (map on_streamed_string_part ps, [])"
proof -
  have "read_line (''$?'' @ CRLF @ (concat (map streamed_string_part_frame ps) @ '';0'' @ CRLF))
      = Some (''$?'', concat (map streamed_string_part_frame ps) @ '';0'' @ CRLF)"
    by (rule read_line_frame) simp
  moreover have
    "streamed_string_parts (concat (map streamed_string_part_frame ps) @ '';0'' @ CRLF @ [])
      = Some (ps, [])"
    using assms by (rule streamed_string_parts_frame)
  ultimately show ?thesis
    by (simp add: streamed_string_calls_def streamed_string_frame_def)
qed

lemma hello_word_frame:
  "streamed_string_frame [''Hell'', ''o wor'', ''d'']
     = ''$?'' @ CRLF @ '';4'' @ CRLF @ ''Hell'' @ CRLF @ '';5'' @ CRLF @ ''o wor'' @ CRLF
         @ '';1'' @ CRLF @ ''d'' @ CRLF @ '';0'' @ CRLF"
  by (simp add: streamed_string_frame_def streamed_string_part_frame_def
      decimal_digits.simps digit_char_def)

text \<open>
  C7. Driven over the parts of a streamed string, the streamed string adapter holds the
  concatenation of the part bodies in their order, appended to what it held before. The
  wire form of a streamed string, its parts followed by the part of length zero, is
  framed into exactly these parts with nothing left over, and a fresh adapter driven
  over them holds exactly their concatenation. The input
  \<^verbatim>\<open>$?\r\n;4\r\nHell\r\n;5\r\no wor\r\n;1\r\nd\r\n;0\r\n\<close> is the wire form of the parts
  \<^verbatim>\<open>Hell\<close>, \<^verbatim>\<open>o wor\<close> and \<^verbatim>\<open>d\<close>, and yields \<^verbatim>\<open>Hello word\<close>.
\<close>

theorem streamed_string_is_concatenation:
  "drive response_basic_streamed_string (map on_streamed_string_part parts) r
     = Inr (r\<lparr>result := result r @ concat parts\<rparr>)
   \<and> ((\<forall>p \<in> set parts. p \<noteq> []) \<longrightarrow>
        (\<exists>calls. streamed_string_calls (streamed_string_frame parts) = Some (calls, [])
           \<and> drive response_basic_streamed_string calls \<lparr>result = []\<rparr>
               = Inr \<lparr>result = concat parts\<rparr>))
   \<and> (\<exists>calls.
        streamed_string_calls
          (''$?'' @ CRLF @ '';4'' @ CRLF @ ''Hell'' @ CRLF @ '';5'' @ CRLF @ ''o wor''
             @ CRLF @ '';1'' @ CRLF @ ''d'' @ CRLF @ '';0'' @ CRLF) = Some (calls, [])
        \<and> drive response_basic_streamed_string calls \<lparr>result = []\<rparr>
            = Inr \<lparr>result = ''Hello word''\<rparr>)"
proof -
  have fresh: "drive response_basic_streamed_string (map on_streamed_string_part ps)
      \<lparr>result = []\<rparr> = Inr \<lparr>result = concat ps\<rparr>" for ps
    by (simp add: drive_streamed_string)
  have framed: "\<exists>calls. streamed_string_calls (streamed_string_frame ps) = Some (calls, [])
      \<and> drive response_basic_streamed_string calls \<lparr>result = []\<rparr>
          = Inr \<lparr>result = concat ps\<rparr>"
    if "\<forall>p \<in> set ps. p \<noteq> []" for ps
    using streamed_string_calls_frame [OF that] fresh [of ps] by blast
  have "\<forall>p \<in> set [''Hell'', ''o wor'', ''d'']. p \<noteq> []" by simp
  from framed [OF this] have hello_word: "\<exists>calls.
      streamed_string_calls
        (''$?'' @ CRLF @ '';4'' @ CRLF @ ''Hell'' @ CRLF @ '';5'' @ CRLF @ ''o wor''
           @ CRLF @ '';1'' @ CRLF @ ''d'' @ CRLF @ '';0'' @ CRLF) = Some (calls, [])
      \<and> drive response_basic_streamed_string calls \<lparr>result = []\<rparr>
          = Inr \<lparr>result = ''Hello word''\<rparr>"
    by (simp only: hello_word_frame) simp
  from drive_streamed_string [of parts r] framed [of parts] hello_word
  show ?thesis by blast
qed

theorem streamed_string_is_concatenation_witness:
  "drive response_basic_streamed_string
     (map on_streamed_string_part [''Hell'', ''o wor'', ''d'']) \<lparr>result = ''> ''\<rparr>
     = Inr \<lparr>result = ''> Hello word''\<rparr>
   \<and> (\<exists>calls. streamed_string_calls (streamed_string_frame [''Hell'', ''o wor'', ''d''])
          = Some (calls, [])
        \<and> drive response_basic_streamed_string calls \<lparr>result = []\<rparr>
            = Inr \<lparr>result = ''Hello word''\<rparr>)"
  using streamed_string_is_concatenation
    [of "[''Hell'', ''o wor'', ''d'']" "\<lparr>result = ''> ''\<rparr>"]
  by simp

section \<open>Facts about the tree adapter\<close>








lemma add_aggregate_opens:
  "add_aggregate m n ty r = Inr r' \<Longrightarrow> depth_counter r' = depth_counter r + 1"
  by (auto simp add: add_aggregate_def reserve_def split: if_splits)

lemma add_aggregate_depths:
  "add_aggregate m n ty r = Inr r' \<Longrightarrow>
     map depth (result r') = map depth (result r)
     \<or> map depth (result r') = map depth (result r) @ [depth_counter r]"
  by (auto simp add: add_aggregate_def reserve_def split: if_splits)

lemma add_depths:
  assumes "add s ty r = Inr r'"
  shows "depth_counter r' = depth_counter r"
    and "map depth (result r') = map depth (result r)
         \<or> map depth (result r') = map depth (result r) @ [depth_counter r]"
proof -
  from assms have "result r \<noteq> []"
    by (auto simp add: add_def split: if_splits)
  then obtain es e where split: "result r = es @ [e]"
    by (cases "result r" rule: rev_cases) auto
  from assms split show "depth_counter r' = depth_counter r"
    by (auto simp add: add_def split: if_splits)
  from assms split show "map depth (result r') = map depth (result r)
      \<or> map depth (result r') = map depth (result r) @ [depth_counter r]"
    by (auto simp add: add_def split: if_splits)
qed

lemma response_tree_depth_counter:
  "response_tree m c r = Inr r' \<Longrightarrow> depth_counter r' = depth_counter r + opened c"
  by (cases c) (auto dest: add_aggregate_opens add_depths(1))

lemma response_tree_records_at_depth_counter:
  "response_tree m c r = Inr r' \<Longrightarrow>
     map depth (result r') = map depth (result r)
     \<or> map depth (result r') = map depth (result r) @ [depth_counter r]"
  by (cases c) (auto dest: add_aggregate_depths add_depths(2))

lemma drive_depth_counter:
  "drive (response_tree m) cs r = Inr r' \<Longrightarrow>
     depth_counter r' = depth_counter r + sum_list (map opened cs)"
proof (induction cs arbitrary: r)
  case Nil
  then show ?case by simp
next
  case (Cons c cs)
  then obtain u where "response_tree m c r = Inr u" "drive (response_tree m) cs u = Inr r'"
    by (auto split: sum.splits)
  with Cons.IH [of u] response_tree_depth_counter [of m c r u] show ?case by simp
qed




text \<open>
  C8. Where the tree adapter records an element, its depth is the value of the depth
  counter at that instant, the number of aggregate headers entered and not yet left
  (\<open>response_tree_records_at_depth_counter\<close>, \<open>drive_depth_counter\<close>). The children of
  a transaction are not recorded, though. The reply of \<^verbatim>\<open>EXEC\<close> to a transaction of two
  \<^verbatim>\<open>PING\<close>s is an array of two simple strings; the root array only raises the depth
  counter to 1, so \<^verbatim>\<open>result\<close> is still empty when the first child arrives, and
  \<^verbatim>\<open>add\<close> fails its assertion \<^verbatim>\<open>!std::empty(result)\<close>: no child is recorded, at
  depth 1 or otherwise, where \<^verbatim>\<open>test_general\<close> expects two elements of depth 1. (On a
  machine that does not even grant room for two elements the read ends earlier, with
  \<^verbatim>\<open>std::bad_alloc\<close>.)
\<close>

theorem response_tree_exec_reply_fails_assertion:
  "calls_of (reply array [] [reply simple_string ''PONG'' [], reply simple_string ''PONG'' []])
     = [select_array 2, on_simple_string ''PONG'', on_simple_string ''PONG'', pop]
   \<and> drive (response_tree m)
        [select_array 2, on_simple_string ''PONG'', on_simple_string ''PONG'', pop] clear
     = Inl (if m < 2 then bad_alloc else assertion_failure)"
  by (simp add: is_aggregate_def clear_def add_aggregate_def reserve_def add_def)




section \<open>Facts about the engine\<close>















section \<open>Submission and completion order\<close>

text \<open>
  C4. A request whose config has \<^verbatim>\<open>cancel_if_not_connected\<close> set and that is submitted
  while the engine is not running completes at once with \<^verbatim>\<open>not_connected\<close>, and the
  pending FIFO is what it was before: no slot is left in it. Submitted to an engine that
  was never started, as in the test \<^verbatim>\<open>cancel_request_if_not_connected\<close>, it leaves the
  FIFO empty.
\<close>

theorem cancel_if_not_connected_completes_at_once:
  "(state e \<noteq> running \<and> cancel_if_not_connected (get_config r) \<longrightarrow>
      completions (async_exec h r e) = completions e @ [(h, Some not_connected)]
      \<and> fifo (async_exec h r e) = fifo e
      \<and> (fifo e = [] \<longrightarrow> fifo (async_exec h r e) = []))
   \<and> (cancel_if_not_connected (get_config r) \<longrightarrow>
        completions (async_exec h r new_engine) = [(h, Some not_connected)]
        \<and> fifo (async_exec h r new_engine) = [])"
  by (simp add: async_exec_def fifo_def new_engine_def)

theorem cancel_if_not_connected_completes_at_once_witness:
  "completions
     (async_exec 1 \<lparr>commands = [hello, ping []],
                    get_config = plain\<lparr>cancel_if_not_connected := True\<rparr>\<rparr> new_engine)
     = [(1, Some not_connected)]
   \<and> fifo
     (async_exec 1 \<lparr>commands = [hello, ping []],
                    get_config = plain\<lparr>cancel_if_not_connected := True\<rparr>\<rparr> new_engine)
     = []"
  using cancel_if_not_connected_completes_at_once
    [of new_engine "\<lparr>commands = [hello, ping []],
                     get_config = plain\<lparr>cancel_if_not_connected := True\<rparr>\<rparr>" 1]
  by (simp add: plain_def)







end
